theory Spec2Isabelle
  imports Main "HOL-Library.Sublist" "HOL-Library.Word"
begin

unbundle bit_operations_syntax

section \<open>Values of the host language\<close>

text \<open>
  The program is a Python script (\<^verbatim>\<open>deepseek_summarizer.py\<close>). A \<^verbatim>\<open>str\<close> is modelled by
  the list of the bytes of its UTF-8 encoding, so ASCII literals of the source are written
  as they are and the Chinese text of the prompt is written byte by byte. The value
  \<^verbatim>\<open>json.load\<close> returns is a tree of Python values; \<^verbatim>\<open>None\<close> is both what JSON
  \<^verbatim>\<open>null\<close> parses to and what the functions of the script return for "absent". A
  \<^verbatim>\<open>float\<close> is its IEEE-754 double bit pattern.
\<close>

datatype pyval =
    PNone
  | PBool bool
  | PInt int
  | PFloat "64 word"
  | PStr string
  | PList "pyval list"
  | PDict "(string \<times> pyval) list"

definition bytes :: "nat list \<Rightarrow> string" where
  "bytes ns = map char_of ns"

text \<open>Number of code points of a UTF-8 text: the bytes that are not continuation bytes.\<close>

definition code_points :: "string \<Rightarrow> nat" where
  "code_points s = length (filter (\<lambda>c. (of_char c :: nat) div 64 \<noteq> 2) s)"

text \<open>Python's \<^verbatim>\<open>len\<close>: \<^verbatim>\<open>None\<close> here is the \<^verbatim>\<open>TypeError\<close> it raises on an unsized value.\<close>

fun py_len :: "pyval \<Rightarrow> nat option" where
  "py_len PNone = None"
| "py_len (PBool b) = None"
| "py_len (PInt i) = None"
| "py_len (PFloat x) = None"
| "py_len (PStr s) = Some (code_points s)"
| "py_len (PList xs) = Some (length xs)"
| "py_len (PDict kvs) = Some (length kvs)"

text \<open>Python's truth value, as \<^verbatim>\<open>if not x\<close> tests it.\<close>

fun py_truthy :: "pyval \<Rightarrow> bool" where
  "py_truthy PNone = False"
| "py_truthy (PBool b) = b"
| "py_truthy (PInt i) = (i \<noteq> 0)"
| "py_truthy (PFloat x) = (x AND 0x7FFFFFFFFFFFFFFF \<noteq> 0)"
| "py_truthy (PStr s) = (s \<noteq> [])"
| "py_truthy (PList xs) = (xs \<noteq> [])"
| "py_truthy (PDict kvs) = (kvs \<noteq> [])"

text \<open>Truth value of an optional \<^verbatim>\<open>str\<close> (\<^verbatim>\<open>None\<close> and \<^verbatim>\<open>""\<close> are false).\<close>

fun str_truthy :: "string option \<Rightarrow> bool" where
  "str_truthy None = False"
| "str_truthy (Some s) = (s \<noteq> [])"

text \<open>What an f-string puts for an optional \<^verbatim>\<open>str\<close>.\<close>

fun py_format :: "string option \<Rightarrow> string" where
  "py_format None = ''None''"
| "py_format (Some s) = s"

section \<open>Constants of the script\<close>

definition ARTICLES_DIR :: string where
  "ARTICLES_DIR = ''articles''"

definition DAILYBRIEF_DIR :: string where
  "DAILYBRIEF_DIR = ''dailybrief''"

definition DEFAULT_MODEL :: string where
  "DEFAULT_MODEL = ''deepseek-chat''"

definition DEEPSEEK_API_URL :: string where
  "DEEPSEEK_API_URL = ''https://api.deepseek.com''"

text \<open>
  \<^verbatim>\<open>DEFAULT_PROMPT\<close> (lines 49 to 62 of the script), one definition per line of the
  literal, each ending with its newline.
\<close>

definition prompt_line_1 :: string where
  "prompt_line_1 =
     bytes [0xE4, 0xBD, 0x9C, 0xE4, 0xB8, 0xBA, 0xE8, 0xB5, 0x84, 0xE6, 0xB7, 0xB1,
        0xE6, 0x8A, 0x95, 0xE8, 0xB5, 0x84, 0xE9, 0xA1, 0xBE, 0xE9, 0x97, 0xAE,
        0xE4, 0xBB, 0xA5, 0xE5, 0x8F, 0x8A, 0xE6, 0x96, 0xB0, 0xE9, 0x97, 0xBB,
        0xE7, 0xBC, 0x96, 0xE8, 0xBE, 0x91, 0xEF, 0xBC, 0x8C, 0xE8, 0xAF, 0xB7,
        0xE5, 0xB0, 0x86, 0xE4, 0xBB, 0xA5, 0xE4, 0xB8, 0x8B] @ ''JSON'' @ bytes [0xE6, 0xA0, 0xBC, 0xE5, 0xBC, 0x8F, 0xE7, 0x9A, 0x84, 0xE6, 0x96, 0xB0,
        0xE9, 0x97, 0xBB, 0xE6, 0x9D, 0xA1, 0xE7, 0x9B, 0xAE, 0xE6, 0x95, 0xB4,
        0xE5, 0x90, 0x88, 0xE4, 0xB8, 0xBA, 0xE6, 0xAF, 0x8F, 0xE6, 0x97, 0xA5,
        0xE7, 0xAE, 0x80, 0xE6, 0x8A, 0xA5, 0xE3, 0x80, 0x82] @ ''\<newline>''"

definition prompt_line_2 :: string where
  "prompt_line_2 =
     ''## '' @ bytes [0xE8, 0xA6, 0x81, 0xE6, 0xB1, 0x82] @ ''\<newline>''"

definition prompt_line_3 :: string where
  "prompt_line_3 =
     ''1. '' @ bytes [0xE9, 0xA6, 0x96, 0xE6, 0xAE, 0xB5, 0xE6, 0x80, 0xBB, 0xE7, 0xBB, 0x93,
        0xE5, 0xBD, 0x93, 0xE6, 0x97, 0xA5, 0xE6, 0xA0, 0xB8, 0xE5, 0xBF, 0x83,
        0xE4, 0xBA, 0x8B, 0xE4, 0xBB, 0xB6] @ ''\<newline>''"

definition prompt_line_4 :: string where
  "prompt_line_4 =
     ''2. '' @ bytes [0xE6, 0xAF, 0x8F, 0xE4, 0xB8, 0xAA, 0xE6, 0x96, 0xB0, 0xE9, 0x97, 0xBB,
        0xE5, 0x8D, 0x95, 0xE7, 0x8B, 0xAC, 0xE6, 0xAE, 0xB5, 0xE8, 0x90, 0xBD,
        0xEF, 0xBC, 0x8C, 0xE5, 0x8C, 0x85, 0xE5, 0x90, 0xAB, 0xEF, 0xBC, 0x9A] @ ''\<newline>''"

definition prompt_line_5 :: string where
  "prompt_line_5 =
     ''   - '' @ bytes [0xE5, 0x85, 0xB3, 0xE9, 0x94, 0xAE, 0xE4, 0xBA, 0x8B, 0xE5, 0xAE, 0x9E] @ ''\<newline>''"

definition prompt_line_6 :: string where
  "prompt_line_6 =
     ''   - '' @ bytes [0xE5, 0xBD, 0xB1, 0xE5, 0x93, 0x8D, 0xE5, 0x88, 0x86, 0xE6, 0x9E, 0x90] @ ''\<newline>''"

definition prompt_line_7 :: string where
  "prompt_line_7 =
     ''   - '' @ bytes [0xE7, 0x9B, 0xB8, 0xE5, 0x85, 0xB3, 0xE8, 0x83, 0x8C, 0xE6, 0x99, 0xAF] @ ''\<newline>''"

definition prompt_line_8 :: string where
  "prompt_line_8 =
     ''3. '' @ bytes [0xE7, 0xBB, 0x93, 0xE5, 0xB0, 0xBE, 0xE6, 0xB7, 0xBB, 0xE5, 0x8A, 0xA0,
        0xE6, 0x8A, 0x95, 0xE8, 0xB5, 0x84, 0xE5, 0x86, 0xB3, 0xE7, 0xAD, 0x96,
        0xE5, 0xBB, 0xBA, 0xE8, 0xAE, 0xAE, 0xE5, 0x8F, 0x8A, 0xE9, 0xA3, 0x8E,
        0xE9, 0x99, 0xA9, 0xE6, 0x8F, 0x90, 0xE7, 0xA4, 0xBA] @ ''\<newline>''"

definition prompt_line_9 :: string where
  "prompt_line_9 =
     ''4. '' @ bytes [0xE4, 0xBD, 0xBF, 0xE7, 0x94, 0xA8] @ ''Markdown'' @ bytes [0xE6, 0xA0, 0xBC, 0xE5, 0xBC, 0x8F, 0xEF, 0xBC, 0x8C, 0xE6, 0xB3, 0xA8,
        0xE6, 0x84, 0x8F, 0xE6, 0x8E, 0x92, 0xE7, 0x89, 0x88, 0xE7, 0xBE, 0x8E,
        0xE8, 0xA7, 0x82, 0xE3, 0x80, 0x81, 0xE4, 0xB8, 0x93, 0xE4, 0xB8, 0x9A,
        0xE3, 0x80, 0x81, 0xE6, 0x98, 0x93, 0xE4, 0xBA, 0x8E, 0xE9, 0x98, 0x85,
        0xE8, 0xAF, 0xBB] @ ''\<newline>''"

definition prompt_line_10 :: string where
  "prompt_line_10 =
     ''5. '' @ bytes [0xE5, 0xAF, 0xB9, 0xE6, 0x89, 0x80, 0xE6, 0x9C, 0x89, 0xE5, 0x86, 0x85,
        0xE5, 0xAE, 0xB9, 0xE7, 0x94, 0x9F, 0xE6, 0x88, 0x90, 0xE5, 0x8F, 0x8C,
        0xE8, 0xAF, 0xAD, 0xE7, 0x89, 0x88, 0xE6, 0x9C, 0xAC, 0xEF, 0xBC, 0x88,
        0xE4, 0xB8, 0xAD] @ ''/'' @ bytes [0xE8, 0x8B, 0xB1, 0xEF, 0xBC, 0x89, 0xEF, 0xBC, 0x8C, 0xE4, 0xBB, 0xA5,
        0xE4, 0xBE, 0xBF, 0xE5, 0xAF, 0xB9, 0xE6, 0xAF, 0x94, 0xE9, 0x98, 0x85,
        0xE8, 0xAF, 0xBB, 0xE3, 0x80, 0x82, 0xE6, 0xB3, 0xA8, 0xE6, 0x84, 0x8F,
        0xE6, 0xA0, 0xBC, 0xE5, 0xBC, 0x8F, 0xE7, 0xBE, 0x8E, 0xE8, 0xA7, 0x82,
        0xE3, 0x80, 0x81, 0xE4, 0xB8, 0x93, 0xE4, 0xB8, 0x9A, 0xE3, 0x80, 0x81,
        0xE6, 0x98, 0x93, 0xE4, 0xBA, 0x8E, 0xE9, 0x98, 0x85, 0xE8, 0xAF, 0xBB] @ ''\<newline>''"

definition prompt_line_11 :: string where
  "prompt_line_11 =
     ''\<newline>''"

definition prompt_line_12 :: string where
  "prompt_line_12 =
     ''## '' @ bytes [0xE6, 0xB3, 0xA8, 0xE6, 0x84, 0x8F] @ ''\<newline>''"

definition prompt_line_13 :: string where
  "prompt_line_13 =
     bytes [0xE8, 0xBE, 0x93, 0xE5, 0x87, 0xBA, 0xE4, 0xBB, 0x85, 0xE8, 0xBF, 0x94,
        0xE5, 0x9B, 0x9E] @ ''markdown'' @ bytes [0xE5, 0x86, 0x85, 0xE5, 0xAE, 0xB9, 0xEF, 0xBC, 0x88, 0xE4, 0xB8, 0x8D,
        0xE8, 0xA6, 0x81, 0xE5, 0x8C, 0x85, 0xE5, 0x90, 0xAB, 0x60, 0x60, 0x60] @ ''markdown'' @ bytes [0xE7, 0xAD, 0x89, 0xE7, 0xAC, 0xA6, 0xE5, 0x8F, 0xB7, 0xEF, 0xBC, 0x89,
        0xEF, 0xBC, 0x8C, 0xE8, 0xAF, 0xB7, 0xE5, 0x8B, 0xBF, 0xE8, 0xBF, 0x94,
        0xE5, 0x9B, 0x9E, 0xE4, 0xBB, 0xBB, 0xE4, 0xBD, 0x95, 0xE5, 0x85, 0xB6,
        0xE4, 0xBB, 0x96, 0xE5, 0x86, 0x85, 0xE5, 0xAE, 0xB9, 0xE3, 0x80, 0x82,
        0xE4, 0xBD, 0xA0, 0xE7, 0x9A, 0x84, 0xE5, 0x86, 0x85, 0xE5, 0xAE, 0xB9,
        0xE5, 0xB0, 0x86, 0xE7, 0x9B, 0xB4, 0xE6, 0x8E, 0xA5, 0xE7, 0x94, 0xA8,
        0xE4, 0xBA, 0x8E, 0xE5, 0xB1, 0x95, 0xE7, 0xA4, 0xBA, 0xE3, 0x80, 0x82] @ ''\<newline>''"

definition DEFAULT_PROMPT :: string where
  "DEFAULT_PROMPT =
     prompt_line_1 @ prompt_line_2 @ prompt_line_3 @ prompt_line_4 @
     prompt_line_5 @ prompt_line_6 @ prompt_line_7 @ prompt_line_8 @
     prompt_line_9 @ prompt_line_10 @ prompt_line_11 @ prompt_line_12 @
     prompt_line_13"

text \<open>
  \<^verbatim>\<open>INPUT_HEADER\<close> is the literal part of the f-string of line 105, between the prompt and
  the serialized articles: two newlines, a four character label, a colon and a newline.
\<close>

definition INPUT_HEADER :: string where
  "INPUT_HEADER =
     ''\<newline>'' @ ''\<newline>'' @ bytes [0xE8, 0xBE, 0x93, 0xE5, 0x85, 0xA5, 0xE6, 0x95, 0xB0, 0xE6, 0x8D, 0xAE] @ '':'' @ ''\<newline>''"

section \<open>The world the script runs in\<close>

text \<open>
  Everything outside the script is explicit state: the process environment, the file
  system, the clock, the remote endpoint, the requests sent so far and the log. Paths are
  compared as strings (no normalisation, no links). A file holds the text that
  \<^verbatim>\<open>open(..., encoding="utf-8")\<close> reads and writes. Beyond the structural errors (missing
  file, a directory where a file is expected, missing parent directory) the platform may
  refuse any single operation (permissions, read-only or full device, a text the codec
  rejects): that is the field \<open>refused\<close>.
\<close>

datatype exn = FileExistsError | FileNotFoundError | IsADirectoryError | OSError

datatype fs_op = Mkdir string | OpenR string | OpenW string | Write string string

text \<open>
  The request of \<^verbatim>\<open>client.chat.completions.create\<close>, with the client's credential
  and base URL. The temperature literal \<^verbatim>\<open>0.6\<close> is kept as mantissa and decimal exponent.
\<close>

record request =
  req_api_key :: string
  req_base_url :: string
  req_model :: string
  req_messages :: "(string \<times> string) list"
  req_temperature :: "int \<times> int"
  req_max_tokens :: nat
  req_stream :: bool

text \<open>
  What the call gives back: an exception (transport failure, non-success status), or a
  response whose \<^verbatim>\<open>choices\<close> list holds the \<^verbatim>\<open>message.content\<close> of each choice (which
  the client library types as an optional \<^verbatim>\<open>str\<close>).
\<close>

datatype response = Raises | Choices "string option list"

datatype level = INFO | ERROR

text \<open>
  One constructor per log call of the script, in source order (lines 41, 74, 79, 82, 92,
  122, 125, 129, 146, 149, 159, 166, 192, 194), with the values the message interpolates;
  the text of a caught exception is not modelled.
\<close>

datatype event =
    Dir_created string
  | File_missing string
  | Articles_loaded string nat
  | Load_failed
  | Key_env_unset
  | Summary_ok
  | No_choices
  | Api_failed
  | Brief_saved string
  | Save_failed
  | Need_key
  | Calling_api
  | Brief_ok
  | Brief_failed

record world =
  environ :: "string \<rightharpoonup> string"
  dirs :: "string set"
  files :: "string \<rightharpoonup> string"
  refused :: "fs_op \<Rightarrow> bool"
  today :: string
  endpoint :: "request \<Rightarrow> response"
  calls :: "request list"
  log :: "(level \<times> event) list"
  stdout_ok :: bool
  stdout_pending :: bool

text \<open>
  The \<^verbatim>\<open>json\<close> module is not part of the repository: its two functions are parameters.
  \<open>json_load\<close> takes the text of the file and is \<open>None\<close> where \<^verbatim>\<open>json.load\<close> raises;
  \<open>json_dumps\<close> takes \<^verbatim>\<open>ensure_ascii\<close> and \<^verbatim>\<open>indent\<close>.
\<close>

record platform =
  json_load :: "string \<Rightarrow> pyval option"
  json_dumps :: "bool \<Rightarrow> nat \<Rightarrow> pyval \<Rightarrow> string"

text \<open>
  The only handler of the root logger is a \<^verbatim>\<open>StreamHandler(sys.stdout)\<close> (lines 19 to 26):
  every record is written to standard output and flushed. \<open>stdout_ok\<close> says whether the
  stream takes what is written to it. When it does not, the logging module swallows the
  error, the script goes on, and the text stays in the buffer of the stream:
  \<open>stdout_pending\<close>. \<open>log\<close> is the sequence of records handed to the logger.
\<close>

definition emit :: "level \<Rightarrow> event \<Rightarrow> world \<Rightarrow> world" where
  "emit l e w =
     w\<lparr>log := log w @ [(l, e)],
       stdout_pending := (if stdout_ok w then stdout_pending w else True)\<rparr>"

definition logger_info :: "event \<Rightarrow> world \<Rightarrow> world" where
  "logger_info e w = emit INFO e w"

definition logger_error :: "event \<Rightarrow> world \<Rightarrow> world" where
  "logger_error e w = emit ERROR e w"

subsection \<open>Paths and files\<close>

text \<open>\<^verbatim>\<open>posixpath.join\<close> of two components.\<close>

definition os_path_join :: "string \<Rightarrow> string \<Rightarrow> string" where
  "os_path_join a b =
     (if take 1 b = ''/'' then b
      else if a = [] \<or> last a = CHR ''/'' then a @ b
      else a @ ''/'' @ b)"

text \<open>\<^verbatim>\<open>posixpath.dirname\<close>: up to the last slash, trailing slashes stripped unless it is all slashes.\<close>

definition dirname :: "string \<Rightarrow> string" where
  "dirname p =
     (let head = rev (dropWhile (\<lambda>c. c \<noteq> CHR ''/'') (rev p))
      in if head \<noteq> [] \<and> filter (\<lambda>c. c \<noteq> CHR ''/'') head \<noteq> []
         then rev (dropWhile (\<lambda>c. c = CHR ''/'') (rev head))
         else head)"

definition os_path_exists :: "string \<Rightarrow> world \<Rightarrow> bool" where
  "os_path_exists p w = (p \<in> dirs w \<or> p \<in> dom (files w))"

text \<open>
  \<^verbatim>\<open>os.makedirs\<close> on a path of one component (the script only passes \<open>DAILYBRIEF_DIR\<close>):
  it raises when something is already there or when the platform refuses.
\<close>

definition os_makedirs :: "string \<Rightarrow> world \<Rightarrow> exn + world" where
  "os_makedirs d w =
     (if os_path_exists d w then Inl FileExistsError
      else if refused w (Mkdir d) then Inl OSError
      else Inr (w\<lparr>dirs := insert d (dirs w)\<rparr>))"

text \<open>The directory a new file is created in: the working directory for a bare name.\<close>

definition parent_exists :: "string \<Rightarrow> world \<Rightarrow> bool" where
  "parent_exists p w = (dirname p = [] \<or> dirname p \<in> dirs w)"

text \<open>\<^verbatim>\<open>open(p, "r")\<close> followed by reading the whole text.\<close>

definition open_read :: "string \<Rightarrow> world \<Rightarrow> exn + string" where
  "open_read p w =
     (if refused w (OpenR p) then Inl OSError
      else if p \<in> dirs w then Inl IsADirectoryError
      else case files w p of None \<Rightarrow> Inl FileNotFoundError | Some text \<Rightarrow> Inr text)"

text \<open>\<^verbatim>\<open>open(p, "w")\<close>: creates the file or truncates it.\<close>

definition open_write :: "string \<Rightarrow> world \<Rightarrow> exn + world" where
  "open_write p w =
     (if refused w (OpenW p) then Inl OSError
      else if p \<in> dirs w then Inl IsADirectoryError
      else if \<not> parent_exists p w then Inl FileNotFoundError
      else Inr (w\<lparr>files := (files w)(p \<mapsto> [])\<rparr>))"

text \<open>
  \<^verbatim>\<open>f.write(content)\<close> and the close at the end of the \<^verbatim>\<open>with\<close> block. A refused
  write leaves the file as \<open>open_write\<close> left it.
\<close>

definition file_write :: "string \<Rightarrow> string \<Rightarrow> world \<Rightarrow> exn + world" where
  "file_write p content w =
     (if refused w (Write p content) then Inl OSError
      else Inr (w\<lparr>files := (files w)(p \<mapsto> content)\<rparr>))"

section \<open>The functions of the script\<close>

definition ensure_dir_exists :: "string \<Rightarrow> world \<Rightarrow> exn + world" where
  "ensure_dir_exists directory w =
     (if \<not> os_path_exists directory w
      then (case os_makedirs directory w of
              Inl e \<Rightarrow> Inl e
            | Inr w' \<Rightarrow> Inr (logger_info (Dir_created directory) w'))
      else Inr w)"

text \<open>
  \<^verbatim>\<open>get_eastern_time().strftime("%Y%m%d")\<close> is the field \<open>today\<close> of the world. The
  default both \<open>load_articles\<close> and \<open>save_daily_brief\<close> apply (\<^verbatim>\<open>if not date_str\<close>):
\<close>

definition date_key :: "string option \<Rightarrow> world \<Rightarrow> string" where
  "date_key date_str w =
     (case date_str of
        None \<Rightarrow> today w
      | Some d \<Rightarrow> if d = [] then today w else d)"

definition articles_path :: "string option \<Rightarrow> world \<Rightarrow> string" where
  "articles_path date_str w = os_path_join ARTICLES_DIR (date_key date_str w @ ''.json'')"

definition brief_path :: "string option \<Rightarrow> world \<Rightarrow> string" where
  "brief_path date_str w = os_path_join DAILYBRIEF_DIR (date_key date_str w @ ''.md'')"

text \<open>Every exception inside the \<^verbatim>\<open>try\<close> is caught, logged and turned into \<^verbatim>\<open>None\<close>.\<close>

definition load_articles :: "platform \<Rightarrow> string option \<Rightarrow> world \<Rightarrow> pyval \<times> world" where
  "load_articles P date_str w =
     (let filepath = articles_path date_str w
      in if \<not> os_path_exists filepath w
         then (PNone, logger_error (File_missing filepath) w)
         else (case open_read filepath w of
                 Inl e \<Rightarrow> (PNone, logger_error Load_failed w)
               | Inr text \<Rightarrow>
                   (case json_load P text of
                      None \<Rightarrow> (PNone, logger_error Load_failed w)
                    | Some articles \<Rightarrow>
                        (case py_len articles of
                           None \<Rightarrow> (PNone, logger_error Load_failed w)
                         | Some n \<Rightarrow> (articles, logger_info (Articles_loaded filepath n) w)))))"

definition prompt_content :: "platform \<Rightarrow> string option \<Rightarrow> pyval \<Rightarrow> string" where
  "prompt_content P prompt articles =
     py_format prompt @ INPUT_HEADER @ json_dumps P False 2 articles"

definition make_request :: "platform \<Rightarrow> string \<Rightarrow> string option \<Rightarrow> pyval \<Rightarrow> world \<Rightarrow> request" where
  "make_request P key prompt articles w =
     \<lparr> req_api_key = key,
       req_base_url = DEEPSEEK_API_URL,
       req_model = (case environ w ''SUMMARY_MODEL'' of None \<Rightarrow> DEFAULT_MODEL | Some m \<Rightarrow> m),
       req_messages = [(''user'', prompt_content P prompt articles)],
       req_temperature = (6, -1),
       req_max_tokens = 4096,
       req_stream = False \<rparr>"

definition call_deepseek_api ::
  "platform \<Rightarrow> string option \<Rightarrow> string option \<Rightarrow> pyval \<Rightarrow> world \<Rightarrow> string option \<times> world" where
  "call_deepseek_api P api_key prompt articles w =
     (let key = (case api_key of
                   Some k \<Rightarrow> Some k
                 | None \<Rightarrow> (if str_truthy (environ w ''DEEPSEEK_API_KEY'')
                             then environ w ''DEEPSEEK_API_KEY'' else None))
      in case key of
           None \<Rightarrow> (None, logger_error Key_env_unset w)
         | Some k \<Rightarrow>
             (let req = make_request P k prompt articles w;
                  w1 = w\<lparr>calls := calls w @ [req]\<rparr>
              in case endpoint w req of
                   Raises \<Rightarrow> (None, logger_error Api_failed w1)
                 | Choices cs \<Rightarrow>
                     (case cs of
                        [] \<Rightarrow> (None, logger_error No_choices w1)
                      | text # rest \<Rightarrow> (text, logger_info Summary_ok w1))))"

definition save_daily_brief :: "string \<Rightarrow> string option \<Rightarrow> world \<Rightarrow> string option \<times> world" where
  "save_daily_brief content date_str w =
     (case ensure_dir_exists DAILYBRIEF_DIR w of
        Inl e \<Rightarrow> (None, logger_error Save_failed w)
      | Inr w1 \<Rightarrow>
          (let filepath = brief_path date_str w
           in case open_write filepath w1 of
                Inl e \<Rightarrow> (None, logger_error Save_failed w1)
              | Inr w2 \<Rightarrow>
                  (case file_write filepath content w2 of
                     Inl e \<Rightarrow> (None, logger_error Save_failed w2)
                   | Inr w3 \<Rightarrow> (Some filepath, logger_info (Brief_saved filepath) w3))))"

definition generate_daily_brief ::
  "platform \<Rightarrow> string option \<Rightarrow> string option \<Rightarrow> world \<Rightarrow> bool \<times> world" where
  "generate_daily_brief P api_key date_str w =
     (let prompt = DEFAULT_PROMPT;
          key = (case api_key of
                   Some k \<Rightarrow> Some k
                 | None \<Rightarrow> (if str_truthy (environ w ''DEEPSEEK_API_KEY'')
                             then environ w ''DEEPSEEK_API_KEY'' else None))
      in case key of
           None \<Rightarrow> (False, logger_error Need_key w)
         | Some k \<Rightarrow>
             (case load_articles P date_str w of (articles, w1) \<Rightarrow>
                if \<not> py_truthy articles then (False, w1)
                else (case call_deepseek_api P (Some k) (Some prompt) articles
                             (logger_info Calling_api w1) of (summary, w2) \<Rightarrow>
                        (case summary of
                           None \<Rightarrow> (False, w2)
                         | Some text \<Rightarrow>
                             if text = [] then (False, w2)
                             else (case save_daily_brief text date_str w2 of
                                     (saved, w3) \<Rightarrow> (saved \<noteq> None, w3))))))"

text \<open>
  The command line as \<^verbatim>\<open>argparse\<close> hands it over: each flag is \<^verbatim>\<open>None\<close> when absent.
  \<open>main\<close> returns the exit status of the process with the final world. The call of
  \<open>ensure_dir_exists\<close> at line 187 is outside any \<^verbatim>\<open>try\<close>: its exception leaves the script.
\<close>

record args =
  arg_api_key :: "string option"
  arg_date :: "string option"
  arg_model :: "string option"

text \<open>\<^verbatim>\<open>if args.x: os.environ[k] = args.x\<close>\<close>

definition setenv_if_given :: "string \<Rightarrow> string option \<Rightarrow> world \<Rightarrow> world" where
  "setenv_if_given k v w =
     (case v of
        None \<Rightarrow> w
      | Some s \<Rightarrow> if s = [] then w else w\<lparr>environ := (environ w)(k \<mapsto> s)\<rparr>)"

text \<open>
  The status the interpreter ends with: 1 when an exception leaves the script, 0 when the
  script runs to its end, and 120 in place of either when the flush of standard output at
  exit fails, which it does when text is still pending there.
\<close>

definition exit_status :: "bool \<Rightarrow> world \<Rightarrow> nat" where
  "exit_status raised w = (if stdout_pending w then 120 else if raised then 1 else 0)"

definition main :: "platform \<Rightarrow> args \<Rightarrow> world \<Rightarrow> nat \<times> world" where
  "main P a w =
     (let w1 = setenv_if_given ''DEEPSEEK_MODEL'' (arg_model a) w;
          w2 = setenv_if_given ''DEEPSEEK_API_KEY'' (arg_api_key a) w1
      in case ensure_dir_exists DAILYBRIEF_DIR w2 of
           Inl e \<Rightarrow> (exit_status True w2, w2)
         | Inr w3 \<Rightarrow>
             (case generate_daily_brief P None (arg_date a) w3 of (success, w4) \<Rightarrow>
                (let w5 = (if success then logger_info Brief_ok w4
                           else logger_error Brief_failed w4)
                 in (exit_status False w5, w5))))"

section \<open>Concrete runs\<close>

text \<open>
  A parser and a serializer that know one collection of two records, the empty
  collection and one number, enough to run the script on concrete files.
\<close>

definition demo_platform :: platform where
  "demo_platform =
     \<lparr> json_load = (\<lambda>text.
         if text = ''[{}, {}]'' then Some (PList [PDict [], PDict []])
         else if text = ''[]'' then Some (PList [])
         else if text = ''7'' then Some (PInt 7)
         else None),
       json_dumps = (\<lambda>ensure_ascii indent v.
         if v = PList [PDict [], PDict []] then ''[\<newline>  {},\<newline>  {}\<newline>]''
         else ''null'') \<rparr>"

text \<open>
  A working directory with the articles of 2 January 2024, a credential in the
  environment, an endpoint that answers every request with one choice, and a standard
  output that takes the log.
\<close>

definition demo_world :: world where
  "demo_world =
     \<lparr> environ = [''DEEPSEEK_API_KEY'' \<mapsto> ''sk-demo''],
       dirs = {''articles''},
       files = [''articles/20240102.json'' \<mapsto> ''[{}, {}]''],
       refused = (\<lambda>op. False),
       today = ''20240102'',
       endpoint = (\<lambda>req. Choices [Some ''# Brief'']),
       calls = [],
       log = [],
       stdout_ok = True,
       stdout_pending = False \<rparr>"

definition demo_args :: args where
  "demo_args = \<lparr> arg_api_key = None, arg_date = Some ''20240102'', arg_model = None \<rparr>"

text \<open>The same directory when the platform refuses to create the output directory.\<close>

definition readonly_world :: world where
  "readonly_world = demo_world\<lparr>refused := (\<lambda>op. op = Mkdir ''dailybrief'')\<rparr>"

text \<open>The same directory with a regular file where the output directory would be.\<close>

definition occupied_world :: world where
  "occupied_world = demo_world\<lparr>files := (files demo_world)(''dailybrief'' \<mapsto> ''notes'')\<rparr>"

section \<open>How each function changes the world\<close>

lemma logger_info_fields [simp]:
  "environ (logger_info e w) = environ w" "dirs (logger_info e w) = dirs w"
  "files (logger_info e w) = files w" "refused (logger_info e w) = refused w"
  "today (logger_info e w) = today w" "endpoint (logger_info e w) = endpoint w"
  "calls (logger_info e w) = calls w" "log (logger_info e w) = log w @ [(INFO, e)]"
  "stdout_ok (logger_info e w) = stdout_ok w"
  "stdout_pending (logger_info e w) = (if stdout_ok w then stdout_pending w else True)"
  by (simp_all add: logger_info_def emit_def)

lemma logger_error_fields [simp]:
  "environ (logger_error e w) = environ w" "dirs (logger_error e w) = dirs w"
  "files (logger_error e w) = files w" "refused (logger_error e w) = refused w"
  "today (logger_error e w) = today w" "endpoint (logger_error e w) = endpoint w"
  "calls (logger_error e w) = calls w" "log (logger_error e w) = log w @ [(ERROR, e)]"
  "stdout_ok (logger_error e w) = stdout_ok w"
  "stdout_pending (logger_error e w) = (if stdout_ok w then stdout_pending w else True)"
  by (simp_all add: logger_error_def emit_def)

lemma date_key_cong: "today w' = today w \<Longrightarrow> date_key d w' = date_key d w"
  by (simp add: date_key_def split: option.splits)

lemma brief_path_cong: "today w' = today w \<Longrightarrow> brief_path d w' = brief_path d w"
  by (simp add: brief_path_def date_key_def split: option.splits)

lemma os_path_exists_cong:
  "dirs w' = dirs w \<Longrightarrow> files w' = files w \<Longrightarrow> os_path_exists p w' = os_path_exists p w"
  by (simp add: os_path_exists_def)

lemma setenv_if_given_frame [simp]:
  "dirs (setenv_if_given k v w) = dirs w"
  "files (setenv_if_given k v w) = files w"
  "refused (setenv_if_given k v w) = refused w"
  "calls (setenv_if_given k v w) = calls w"
  "today (setenv_if_given k v w) = today w"
  "log (setenv_if_given k v w) = log w"
  "stdout_ok (setenv_if_given k v w) = stdout_ok w"
  "stdout_pending (setenv_if_given k v w) = stdout_pending w"
  by (simp_all add: setenv_if_given_def split: option.splits)

lemma ensure_dir_exists_cases:
  "ensure_dir_exists d w = Inr w' \<Longrightarrow>
     (os_path_exists d w \<and> w' = w) \<or>
     (\<not> os_path_exists d w \<and> \<not> refused w (Mkdir d) \<and>
        w' = logger_info (Dir_created d) (w\<lparr>dirs := insert d (dirs w)\<rparr>))"
  by (auto simp: ensure_dir_exists_def os_makedirs_def split: if_splits)

lemma ensure_dir_exists_ok:
  "os_path_exists d w \<or> \<not> refused w (Mkdir d) \<Longrightarrow> \<exists>w'. ensure_dir_exists d w = Inr w'"
  by (auto simp: ensure_dir_exists_def os_makedirs_def)

lemma ensure_dir_exists_frame:
  assumes "ensure_dir_exists d w = Inr w'"
  shows "environ w' = environ w" "files w' = files w" "refused w' = refused w"
    "today w' = today w" "endpoint w' = endpoint w" "calls w' = calls w"
    "dirs w' = dirs w \<or> dirs w' = insert d (dirs w)"
  using ensure_dir_exists_cases [OF assms] by auto

lemma os_path_join_suffix: "\<exists>xs. os_path_join a b = xs @ b"
  by (auto simp: os_path_join_def)

lemma brief_path_no_slash:
  assumes "CHR ''/'' \<notin> set (date_key d w)"
  shows "brief_path d w = DAILYBRIEF_DIR @ ''/'' @ date_key d w @ ''.md''"
proof -
  have "take 1 (date_key d w @ ''.md'') \<noteq> ''/''"
    using assms by (cases "date_key d w") auto
  then show ?thesis
    by (simp add: brief_path_def os_path_join_def DAILYBRIEF_DIR_def)
qed

lemma dirname_brief_path:
  assumes "CHR ''/'' \<notin> set (date_key d w)"
  shows "dirname (brief_path d w) = DAILYBRIEF_DIR"
proof -
  have "dropWhile (\<lambda>c. c \<noteq> CHR ''/'') (rev (date_key d w @ ''.md'') @ ''/'' @ rev DAILYBRIEF_DIR)
          = dropWhile (\<lambda>c. c \<noteq> CHR ''/'') (''/'' @ rev DAILYBRIEF_DIR)"
    using assms by (intro dropWhile_append2) auto
  then have "dropWhile (\<lambda>c. c \<noteq> CHR ''/'') (rev (brief_path d w)) = ''/'' @ rev DAILYBRIEF_DIR"
    by (simp add: brief_path_no_slash [OF assms])
  then show ?thesis
    by (simp add: dirname_def DAILYBRIEF_DIR_def)
qed

lemma brief_path_not_dir_name: "brief_path d w \<noteq> DAILYBRIEF_DIR"
proof
  assume eq: "brief_path d w = DAILYBRIEF_DIR"
  obtain xs where "brief_path d w = xs @ date_key d w @ ''.md''"
    unfolding brief_path_def using os_path_join_suffix by blast
  then have "last (brief_path d w) = CHR ''d''" by simp
  with eq show False by (simp add: DAILYBRIEF_DIR_def)
qed

lemma save_daily_brief_Some:
  assumes "save_daily_brief T d w = (Some p, w')"
  shows "p = brief_path d w \<and> files w' = (files w)(p \<mapsto> T) \<and> calls w' = calls w
       \<and> environ w' = environ w \<and> refused w' = refused w \<and> today w' = today w
       \<and> (dirs w' = dirs w \<or> dirs w' = insert DAILYBRIEF_DIR (dirs w))
       \<and> p \<notin> dirs w' \<and> parent_exists p w' \<and> os_path_exists DAILYBRIEF_DIR w'
       \<and> \<not> refused w (OpenW p)"
proof -
  from assms obtain w1 where e: "ensure_dir_exists DAILYBRIEF_DIR w = Inr w1"
    by (auto simp: save_daily_brief_def split: sum.splits)
  note fr = ensure_dir_exists_frame [OF e]
  have ex1: "os_path_exists DAILYBRIEF_DIR w1"
    using ensure_dir_exists_cases [OF e] by (auto simp: os_path_exists_def)
  from assms e obtain w2 where o: "open_write (brief_path d w) w1 = Inr w2"
    by (auto simp: save_daily_brief_def Let_def split: sum.splits)
  from assms e o obtain w3 where wr: "file_write (brief_path d w) T w2 = Inr w3"
    and p: "p = brief_path d w" and w': "w' = logger_info (Brief_saved (brief_path d w)) w3"
    by (auto simp: save_daily_brief_def Let_def split: sum.splits)
  from o have o': "\<not> refused w1 (OpenW p)" "p \<notin> dirs w1" "parent_exists p w1"
    "w2 = w1\<lparr>files := (files w1)(p \<mapsto> [])\<rparr>"
    unfolding p by (auto simp: open_write_def split: if_splits)
  from wr have wr': "w3 = w2\<lparr>files := (files w2)(p \<mapsto> T)\<rparr>"
    unfolding p by (auto simp: file_write_def split: if_splits)
  show ?thesis
    using p w' o' wr' fr ex1 by (auto simp: parent_exists_def os_path_exists_def)
qed

lemma save_daily_brief_frame:
  "calls (snd (save_daily_brief T d w)) = calls w"
  "environ (snd (save_daily_brief T d w)) = environ w"
  "dirs (snd (save_daily_brief T d w)) = dirs w
     \<or> dirs (snd (save_daily_brief T d w)) = insert DAILYBRIEF_DIR (dirs w)"
proof -
  show "calls (snd (save_daily_brief T d w)) = calls w"
    by (auto simp: save_daily_brief_def Let_def open_write_def file_write_def
        dest!: ensure_dir_exists_frame(6) split: sum.splits if_splits)
  show "environ (snd (save_daily_brief T d w)) = environ w"
    by (auto simp: save_daily_brief_def Let_def open_write_def file_write_def
        dest!: ensure_dir_exists_frame(1) split: sum.splits if_splits)
  show "dirs (snd (save_daily_brief T d w)) = dirs w
     \<or> dirs (snd (save_daily_brief T d w)) = insert DAILYBRIEF_DIR (dirs w)"
    by (auto simp: save_daily_brief_def Let_def open_write_def file_write_def
        dest!: ensure_dir_exists_frame(7) split: sum.splits if_splits)
qed

lemma load_articles_frame:
  "calls (snd (load_articles P d w)) = calls w"
  "environ (snd (load_articles P d w)) = environ w"
  "dirs (snd (load_articles P d w)) = dirs w"
  "files (snd (load_articles P d w)) = files w"
  "refused (snd (load_articles P d w)) = refused w"
  "today (snd (load_articles P d w)) = today w"
  "endpoint (snd (load_articles P d w)) = endpoint w"
  by (simp_all add: load_articles_def Let_def split: sum.splits option.splits)

lemma make_request_cong:
  "environ w' = environ w \<Longrightarrow> make_request P k p a w' = make_request P k p a w"
  by (simp add: make_request_def)

lemma call_deepseek_api_given_key:
  "calls (snd (call_deepseek_api P (Some k) prompt articles w))
     = calls w @ [make_request P k prompt articles w]"
  "dirs (snd (call_deepseek_api P (Some k) prompt articles w)) = dirs w"
  by (simp_all add: call_deepseek_api_def Let_def split: response.splits list.splits)

lemma call_deepseek_api_given_key_text:
  assumes "call_deepseek_api P (Some k) prompt articles w = (Some T, w2)"
  shows "\<exists>rest. endpoint w (make_request P k prompt articles w) = Choices (Some T # rest)"
    and "today w2 = today w"
  using assms
  by (auto simp: call_deepseek_api_def Let_def split: response.splits list.splits)

lemma generate_daily_brief_no_key:
  assumes "\<not> str_truthy (environ w ''DEEPSEEK_API_KEY'')"
  shows "generate_daily_brief P None d w = (False, logger_error Need_key w)"
  using assms by (simp add: generate_daily_brief_def)

lemma key_cases:
  obtains (absent) "k = None" "\<not> str_truthy (environ w ''DEEPSEEK_API_KEY'')"
  | (present) key where
      "k = Some key \<or> (k = None \<and> environ w ''DEEPSEEK_API_KEY'' = Some key \<and> key \<noteq> [])"
  by (cases k; cases "environ w ''DEEPSEEK_API_KEY''") auto

lemma generate_daily_brief_falsy_world:
  assumes "k = Some key \<or> (k = None \<and> environ w ''DEEPSEEK_API_KEY'' = Some key \<and> key \<noteq> [])"
    and "load_articles P d w = (articles, w1)"
    and "\<not> py_truthy articles"
  shows "generate_daily_brief P k d w = (False, w1)"
proof -
  have key: "(case k of Some k' \<Rightarrow> Some k'
              | None \<Rightarrow> (if str_truthy (environ w ''DEEPSEEK_API_KEY'')
                          then environ w ''DEEPSEEK_API_KEY'' else None)) = Some key"
    using assms(1) by auto
  show ?thesis
    unfolding generate_daily_brief_def Let_def key
    using assms(2-3) by simp
qed

lemma generate_daily_brief_unfold:
  assumes "k = Some key \<or> (k = None \<and> environ w ''DEEPSEEK_API_KEY'' = Some key \<and> key \<noteq> [])"
    and "load_articles P d w = (articles, w1)"
    and "py_truthy articles"
    and "call_deepseek_api P (Some key) (Some DEFAULT_PROMPT) articles
           (logger_info Calling_api w1) = (summary, w2)"
  shows "generate_daily_brief P k d w =
           (case summary of
              None \<Rightarrow> (False, w2)
            | Some text \<Rightarrow>
                if text = [] then (False, w2)
                else (fst (save_daily_brief text d w2) \<noteq> None, snd (save_daily_brief text d w2)))"
proof -
  have key: "(case k of Some k' \<Rightarrow> Some k'
              | None \<Rightarrow> (if str_truthy (environ w ''DEEPSEEK_API_KEY'')
                          then environ w ''DEEPSEEK_API_KEY'' else None)) = Some key"
    using assms(1) by auto
  show ?thesis
    unfolding generate_daily_brief_def Let_def key
    using assms(2-4) by (simp split: option.splits prod.splits)
qed

lemma generate_daily_brief_falsy:
  assumes "\<not> py_truthy (fst (load_articles P d w))"
  shows "fst (generate_daily_brief P k d w) = False"
    and "calls (snd (generate_daily_brief P k d w)) = calls w"
  using assms load_articles_frame(1) [of P d w]
  by (auto simp: generate_daily_brief_def Let_def split: option.splits prod.splits)

lemma generate_daily_brief_truthy:
  assumes "py_truthy (fst (load_articles P d w))"
    and "k = Some key \<or> (k = None \<and> environ w ''DEEPSEEK_API_KEY'' = Some key \<and> key \<noteq> [])"
  shows "calls (snd (generate_daily_brief P k d w))
     = calls w @ [make_request P key (Some DEFAULT_PROMPT) (fst (load_articles P d w)) w]"
proof -
  obtain articles w1 where l: "load_articles P d w = (articles, w1)"
    by (cases "load_articles P d w")
  have fr: "calls w1 = calls w" "environ w1 = environ w"
    using load_articles_frame(1,2) [of P d w] l by simp_all
  let ?w1 = "logger_info Calling_api w1"
  obtain summary w2 where c: "call_deepseek_api P (Some key) (Some DEFAULT_PROMPT) articles ?w1 = (summary, w2)"
    by (cases "call_deepseek_api P (Some key) (Some DEFAULT_PROMPT) articles ?w1")
  have "make_request P key (Some DEFAULT_PROMPT) articles ?w1
          = make_request P key (Some DEFAULT_PROMPT) articles w"
    by (rule make_request_cong) (simp add: fr)
  then have c2: "calls w2 = calls w @ [make_request P key (Some DEFAULT_PROMPT) articles w]"
    using call_deepseek_api_given_key(1) [of P key "Some DEFAULT_PROMPT" articles ?w1] c fr
    by simp
  have t: "py_truthy articles" using assms(1) l by simp
  have "calls (snd (generate_daily_brief P k d w)) = calls w2"
    unfolding generate_daily_brief_unfold [OF assms(2) l t c]
    by (simp add: save_daily_brief_frame(1) split: option.splits)
  with c2 l show ?thesis by simp
qed

lemma generate_daily_brief_True:
  assumes "fst (generate_daily_brief P k d w)"
  shows "\<exists>req T rest. calls (snd (generate_daily_brief P k d w)) = calls w @ [req] \<and>
           endpoint w req = Choices (Some T # rest) \<and>
           files (snd (generate_daily_brief P k d w)) (brief_path d w) = Some T"
proof (cases k w rule: key_cases)
  case absent
  with assms show ?thesis by (simp add: generate_daily_brief_no_key)
next
  case (present key)
  obtain articles w1 where l: "load_articles P d w = (articles, w1)"
    by (cases "load_articles P d w")
  have fr1: "today w1 = today w" "endpoint w1 = endpoint w" "environ w1 = environ w"
    using load_articles_frame(2,6,7) [of P d w] l by simp_all
  have t: "py_truthy articles"
    using assms generate_daily_brief_falsy_world [OF present l] by (cases "py_truthy articles") auto
  let ?w1 = "logger_info Calling_api w1"
  let ?req = "make_request P key (Some DEFAULT_PROMPT) articles w"
  obtain summary w2 where c: "call_deepseek_api P (Some key) (Some DEFAULT_PROMPT) articles ?w1
      = (summary, w2)"
    by (cases "call_deepseek_api P (Some key) (Some DEFAULT_PROMPT) articles ?w1")
  note u = generate_daily_brief_unfold [OF present l t c]
  from assms u obtain T where s: "summary = Some T" and ne: "T \<noteq> []"
    and ok: "fst (save_daily_brief T d w2) \<noteq> None"
    by (cases summary) (auto split: if_splits)
  have g: "generate_daily_brief P k d w = (True, snd (save_daily_brief T d w2))"
    using u s ne ok by simp
  have rq: "make_request P key (Some DEFAULT_PROMPT) articles ?w1 = ?req"
    by (rule make_request_cong) (simp add: fr1)
  from call_deepseek_api_given_key_text [OF c [unfolded s]] rq fr1
  obtain rest where ep: "endpoint w ?req = Choices (Some T # rest)" and td: "today w2 = today w"
    by auto
  from ok obtain p where "save_daily_brief T d w2 = (Some p, snd (save_daily_brief T d w2))"
    by (cases "save_daily_brief T d w2") auto
  from save_daily_brief_Some [OF this] brief_path_cong [OF td, of d]
  have fl: "files (snd (save_daily_brief T d w2)) (brief_path d w) = Some T" by simp
  have "calls (snd (generate_daily_brief P k d w)) = calls w @ [?req]"
    using generate_daily_brief_truthy [of P d w k key] present t l by simp
  with ep fl g show ?thesis by auto
qed

lemma generate_daily_brief_dirs:
  "dirs (snd (generate_daily_brief P k d w)) = dirs w \<or>
   dirs (snd (generate_daily_brief P k d w)) = insert DAILYBRIEF_DIR (dirs w)"
proof (cases k w rule: key_cases)
  case absent
  then show ?thesis by (simp add: generate_daily_brief_no_key)
next
  case (present key)
  obtain articles w1 where l: "load_articles P d w = (articles, w1)"
    by (cases "load_articles P d w")
  have d1: "dirs w1 = dirs w" using load_articles_frame(3) [of P d w] l by simp
  show ?thesis
  proof (cases "py_truthy articles")
    case False
    from generate_daily_brief_falsy_world [OF present l this] d1 show ?thesis by simp
  next
    case True
    obtain summary w2 where c: "call_deepseek_api P (Some key) (Some DEFAULT_PROMPT) articles
           (logger_info Calling_api w1) = (summary, w2)"
      by (cases "call_deepseek_api P (Some key) (Some DEFAULT_PROMPT) articles
           (logger_info Calling_api w1)")
    have d2: "dirs w2 = dirs w"
      using call_deepseek_api_given_key(2)
              [of P key "Some DEFAULT_PROMPT" articles "logger_info Calling_api w1"] c d1
      by simp
    show ?thesis
      unfolding generate_daily_brief_unfold [OF present l True c]
      using d2 save_daily_brief_frame(3) [of _ d w2]
      by (auto split: option.splits)
  qed
qed

lemma main_after_dir:
  assumes "ensure_dir_exists DAILYBRIEF_DIR
             (setenv_if_given ''DEEPSEEK_API_KEY'' (arg_api_key a)
                (setenv_if_given ''DEEPSEEK_MODEL'' (arg_model a) w)) = Inr w3"
  shows "main P a w =
           (exit_status False
              (if fst (generate_daily_brief P None (arg_date a) w3)
               then logger_info Brief_ok (snd (generate_daily_brief P None (arg_date a) w3))
               else logger_error Brief_failed (snd (generate_daily_brief P None (arg_date a) w3))),
            if fst (generate_daily_brief P None (arg_date a) w3)
            then logger_info Brief_ok (snd (generate_daily_brief P None (arg_date a) w3))
            else logger_error Brief_failed (snd (generate_daily_brief P None (arg_date a) w3)))"
  using assms by (simp add: main_def Let_def split: prod.splits)

lemma main_dir_step_ok:
  assumes "os_path_exists DAILYBRIEF_DIR w \<or> \<not> refused w (Mkdir DAILYBRIEF_DIR)"
  shows "\<exists>w3. ensure_dir_exists DAILYBRIEF_DIR
             (setenv_if_given ''DEEPSEEK_API_KEY'' (arg_api_key a)
                (setenv_if_given ''DEEPSEEK_MODEL'' (arg_model a) w)) = Inr w3"
proof (rule ensure_dir_exists_ok)
  let ?w2 = "setenv_if_given ''DEEPSEEK_API_KEY'' (arg_api_key a)
                (setenv_if_given ''DEEPSEEK_MODEL'' (arg_model a) w)"
  have "os_path_exists DAILYBRIEF_DIR ?w2 = os_path_exists DAILYBRIEF_DIR w"
    by (rule os_path_exists_cong) simp_all
  with assms show "os_path_exists DAILYBRIEF_DIR ?w2 \<or> \<not> refused ?w2 (Mkdir DAILYBRIEF_DIR)"
    by simp
qed

text \<open>Standard output: no function changes whether it takes text, and none leaves text
  pending on a stream that takes it.\<close>

lemma ensure_dir_exists_stdout:
  assumes "ensure_dir_exists d w = Inr w'"
  shows "stdout_ok w' = stdout_ok w"
    and "stdout_ok w \<Longrightarrow> stdout_pending w' = stdout_pending w"
  using ensure_dir_exists_cases [OF assms] by auto

lemma load_articles_stdout:
  "stdout_ok (snd (load_articles P d w)) = stdout_ok w"
  "stdout_ok w \<Longrightarrow> stdout_pending (snd (load_articles P d w)) = stdout_pending w"
  by (simp_all add: load_articles_def Let_def split: sum.splits option.splits)

lemma call_deepseek_api_stdout:
  "stdout_ok (snd (call_deepseek_api P k prompt articles w)) = stdout_ok w"
  "stdout_ok w \<Longrightarrow> stdout_pending (snd (call_deepseek_api P k prompt articles w)) = stdout_pending w"
  by (simp_all add: call_deepseek_api_def Let_def
      split: option.splits response.splits list.splits)

lemma save_daily_brief_stdout:
  "stdout_ok (snd (save_daily_brief T d w)) = stdout_ok w"
  "stdout_ok w \<Longrightarrow> stdout_pending (snd (save_daily_brief T d w)) = stdout_pending w"
proof -
  show "stdout_ok (snd (save_daily_brief T d w)) = stdout_ok w"
    by (auto simp: save_daily_brief_def Let_def open_write_def file_write_def
        dest!: ensure_dir_exists_stdout(1) split: sum.splits if_splits)
  show "stdout_pending (snd (save_daily_brief T d w)) = stdout_pending w" if "stdout_ok w"
    using that
    by (auto simp: save_daily_brief_def Let_def open_write_def file_write_def
        dest: ensure_dir_exists_stdout split: sum.splits if_splits)
qed

lemma generate_daily_brief_stdout:
  "stdout_ok (snd (generate_daily_brief P k d w)) = stdout_ok w"
  "stdout_ok w \<Longrightarrow> stdout_pending (snd (generate_daily_brief P k d w)) = stdout_pending w"
proof -
  have both: "stdout_ok (snd (generate_daily_brief P k d w)) = stdout_ok w \<and>
        (stdout_ok w \<longrightarrow> stdout_pending (snd (generate_daily_brief P k d w)) = stdout_pending w)"
  proof (cases k w rule: key_cases)
    case absent
    then show ?thesis by (simp add: generate_daily_brief_no_key)
  next
    case (present key)
    obtain articles w1 where l: "load_articles P d w = (articles, w1)"
      by (cases "load_articles P d w")
    have s1: "stdout_ok w1 = stdout_ok w" "stdout_ok w \<Longrightarrow> stdout_pending w1 = stdout_pending w"
      using load_articles_stdout [where P = P and d = d and w = w] l by simp_all
    show ?thesis
    proof (cases "py_truthy articles")
      case False
      from generate_daily_brief_falsy_world [OF present l this] s1 show ?thesis by simp
    next
      case True
      let ?w1 = "logger_info Calling_api w1"
      obtain summary w2 where c: "call_deepseek_api P (Some key) (Some DEFAULT_PROMPT) articles
             ?w1 = (summary, w2)"
        by (cases "call_deepseek_api P (Some key) (Some DEFAULT_PROMPT) articles ?w1")
      have s2: "stdout_ok w2 = stdout_ok w" "stdout_ok w \<Longrightarrow> stdout_pending w2 = stdout_pending w"
        using call_deepseek_api_stdout [where P = P and k = "Some key"
                and prompt = "Some DEFAULT_PROMPT" and articles = articles and w = ?w1] c s1
        by simp_all
      show ?thesis
        unfolding generate_daily_brief_unfold [OF present l True c]
        using s2 save_daily_brief_stdout [where d = d and w = w2]
        by (auto split: option.splits)
    qed
  qed
  from both show "stdout_ok (snd (generate_daily_brief P k d w)) = stdout_ok w" by simp
  from both show "stdout_pending (snd (generate_daily_brief P k d w)) = stdout_pending w"
    if "stdout_ok w" using that by simp
qed

text \<open>
  The status of a run of \<open>main\<close> whose directory step at line 187 completes: 0 when
  standard output takes the log, 120 otherwise, whatever \<open>generate_daily_brief\<close> reports;
  the last record logged is the failure line at level ERROR exactly when it reports failure.
\<close>

lemma main_status_after_dir_step:
  assumes "os_path_exists DAILYBRIEF_DIR w \<or> \<not> refused w (Mkdir DAILYBRIEF_DIR)"
  shows "\<exists>w3. ensure_dir_exists DAILYBRIEF_DIR
             (setenv_if_given ''DEEPSEEK_API_KEY'' (arg_api_key a)
                (setenv_if_given ''DEEPSEEK_MODEL'' (arg_model a) w)) = Inr w3 \<and>
           fst (main P a w) = (if stdout_ok w \<and> \<not> stdout_pending w then 0 else 120) \<and>
           last (log (snd (main P a w))) =
             (if fst (generate_daily_brief P None (arg_date a) w3)
              then (INFO, Brief_ok) else (ERROR, Brief_failed))"
proof -
  let ?w2 = "setenv_if_given ''DEEPSEEK_API_KEY'' (arg_api_key a)
                (setenv_if_given ''DEEPSEEK_MODEL'' (arg_model a) w)"
  from main_dir_step_ok [OF assms] obtain w3 where
    e: "ensure_dir_exists DAILYBRIEF_DIR ?w2 = Inr w3" by blast
  let ?g = "generate_daily_brief P None (arg_date a) w3"
  have s3: "stdout_ok w3 = stdout_ok w" "stdout_ok w \<Longrightarrow> stdout_pending w3 = stdout_pending w"
    using ensure_dir_exists_stdout [OF e] by simp_all
  have s4: "stdout_ok (snd ?g) = stdout_ok w"
    "stdout_ok w \<Longrightarrow> stdout_pending (snd ?g) = stdout_pending w"
    using generate_daily_brief_stdout [where P = P and k = None and d = "arg_date a" and w = w3] s3
    by simp_all
  have st: "fst (main P a w) = (if stdout_ok w \<and> \<not> stdout_pending w then 0 else 120)"
    using s4 by (cases "stdout_ok w") (simp_all add: main_after_dir [OF e] exit_status_def)
  have lg: "last (log (snd (main P a w))) =
             (if fst ?g then (INFO, Brief_ok) else (ERROR, Brief_failed))"
    by (simp add: main_after_dir [OF e])
  from e st lg show ?thesis by blast
qed

text \<open>
  The status of a run whose directory step raises: the exception leaves \<open>main\<close> before
  any record is logged.
\<close>

lemma main_status_dir_failure:
  assumes "\<not> os_path_exists DAILYBRIEF_DIR w" and "refused w (Mkdir DAILYBRIEF_DIR)"
  shows "fst (main P a w) = (if stdout_pending w then 120 else 1)"
    and "log (snd (main P a w)) = log w"
proof -
  let ?w2 = "setenv_if_given ''DEEPSEEK_API_KEY'' (arg_api_key a)
                (setenv_if_given ''DEEPSEEK_MODEL'' (arg_model a) w)"
  have "os_path_exists DAILYBRIEF_DIR ?w2 = os_path_exists DAILYBRIEF_DIR w"
    by (rule os_path_exists_cong) simp_all
  with assms have "ensure_dir_exists DAILYBRIEF_DIR ?w2 = Inl OSError"
    by (simp add: ensure_dir_exists_def os_makedirs_def)
  then show "fst (main P a w) = (if stdout_pending w then 120 else 1)"
    and "log (snd (main P a w)) = log w"
    by (simp_all add: main_def Let_def exit_status_def)
qed

lemmas run_defs =
  main_def generate_daily_brief_def call_deepseek_api_def save_daily_brief_def
  load_articles_def ensure_dir_exists_def os_makedirs_def os_path_exists_def
  open_read_def open_write_def file_write_def parent_exists_def dirname_def
  articles_path_def brief_path_def date_key_def os_path_join_def setenv_if_given_def
  make_request_def logger_info_def logger_error_def emit_def exit_status_def
  ARTICLES_DIR_def DAILYBRIEF_DIR_def DEFAULT_MODEL_def
  demo_world_def demo_platform_def demo_args_def readonly_world_def occupied_world_def
  Let_def

lemma demo_brief_path: "brief_path (Some ''20240102'') demo_world = ''dailybrief/20240102.md''"
  by (simp add: brief_path_def date_key_def os_path_join_def DAILYBRIEF_DIR_def)

lemma demo_articles_path: "articles_path (Some ''20240102'') demo_world = ''articles/20240102.json''"
  by (simp add: articles_path_def date_key_def os_path_join_def ARTICLES_DIR_def)

section \<open>The brief writer\<close>

text \<open>
  C1. Whatever text \<open>T\<close> the completion client returned and whatever the date key,
  \<open>save_daily_brief\<close> writes exactly \<open>T\<close>: whenever it reports a path, that path is the
  brief path of the date key and the file there holds \<open>T\<close>, character for character.
  It does report the path when the platform refuses nothing, nothing but a directory
  occupies the output directory's name, the brief path is not a directory and the date key
  has no slash. And a run of \<open>generate_daily_brief\<close> that reports success has sent one
  request and left in the brief file the text of the first choice of the answer.
\<close>

theorem save_daily_brief_writes_exactly:
  "(\<forall>p w'. save_daily_brief T d w = (Some p, w') \<longrightarrow>
       p = brief_path d w \<and> files w' p = Some T) \<and>
   ((\<forall>op. \<not> refused w op) \<and> files w DAILYBRIEF_DIR = None \<and> brief_path d w \<notin> dirs w
      \<and> CHR ''/'' \<notin> set (date_key d w) \<longrightarrow>
       fst (save_daily_brief T d w) = Some (brief_path d w)) \<and>
   (fst (generate_daily_brief P k d w) \<longrightarrow>
      (\<exists>req T' rest. calls (snd (generate_daily_brief P k d w)) = calls w @ [req] \<and>
         endpoint w req = Choices (Some T' # rest) \<and>
         files (snd (generate_daily_brief P k d w)) (brief_path d w) = Some T'))"
proof (intro conjI allI impI)
  fix p w' assume "save_daily_brief T d w = (Some p, w')"
  from save_daily_brief_Some [OF this] show "p = brief_path d w" and "files w' p = Some T"
    by simp_all
next
  assume h: "(\<forall>op. \<not> refused w op) \<and> files w DAILYBRIEF_DIR = None \<and> brief_path d w \<notin> dirs w
      \<and> CHR ''/'' \<notin> set (date_key d w)"
  then obtain w1 where e: "ensure_dir_exists DAILYBRIEF_DIR w = Inr w1"
    using ensure_dir_exists_ok [of DAILYBRIEF_DIR w] by blast
  have d1: "DAILYBRIEF_DIR \<in> dirs w1" and r1: "refused w1 = refused w"
    and d2: "dirs w1 \<subseteq> insert DAILYBRIEF_DIR (dirs w)"
    using ensure_dir_exists_cases [OF e] h by (auto simp: os_path_exists_def)
  have "parent_exists (brief_path d w) w1"
    using h d1 by (simp add: parent_exists_def dirname_brief_path)
  moreover have "brief_path d w \<notin> dirs w1"
    using h d2 brief_path_not_dir_name [of d w] by auto
  ultimately show "fst (save_daily_brief T d w) = Some (brief_path d w)"
    using e h r1 by (simp add: save_daily_brief_def open_write_def file_write_def Let_def)
next
  assume "fst (generate_daily_brief P k d w)"
  from generate_daily_brief_True [OF this]
  show "\<exists>req T' rest. calls (snd (generate_daily_brief P k d w)) = calls w @ [req] \<and>
         endpoint w req = Choices (Some T' # rest) \<and>
         files (snd (generate_daily_brief P k d w)) (brief_path d w) = Some T'" .
qed

theorem save_daily_brief_writes_exactly_witness:
  "fst (save_daily_brief ''# Brief'' (Some ''20240102'') demo_world) = Some ''dailybrief/20240102.md'' \<and>
   files (snd (save_daily_brief ''# Brief'' (Some ''20240102'') demo_world)) ''dailybrief/20240102.md''
     = Some ''# Brief'' \<and>
   files (snd (generate_daily_brief demo_platform None (Some ''20240102'') demo_world))
     ''dailybrief/20240102.md'' = Some ''# Brief''"
proof -
  let ?r = "save_daily_brief ''# Brief'' (Some ''20240102'') demo_world"
  let ?g = "generate_daily_brief demo_platform None (Some ''20240102'') demo_world"
  note t = save_daily_brief_writes_exactly
             [of "''# Brief''" "Some ''20240102''" demo_world demo_platform None]
  have h: "(\<forall>op. \<not> refused demo_world op) \<and> files demo_world DAILYBRIEF_DIR = None
      \<and> brief_path (Some ''20240102'') demo_world \<notin> dirs demo_world
      \<and> CHR ''/'' \<notin> set (date_key (Some ''20240102'') demo_world)"
    unfolding demo_brief_path by (simp add: demo_world_def DAILYBRIEF_DIR_def date_key_def)
  from t h have a: "fst ?r = Some (brief_path (Some ''20240102'') demo_world)" by blast
  then have "?r = (Some (brief_path (Some ''20240102'') demo_world), snd ?r)"
    by (metis prod.collapse)
  with t have b: "files (snd ?r) (brief_path (Some ''20240102'') demo_world) = Some ''# Brief''"
    by blast
  have "fst ?g" by (simp add: run_defs)
  with t obtain req T' rest where "endpoint demo_world req = Choices (Some T' # rest)"
    and c: "files (snd ?g) (brief_path (Some ''20240102'') demo_world) = Some T'"
    by blast
  then have "T' = ''# Brief''" by (simp add: demo_world_def)
  with a b c show ?thesis unfolding demo_brief_path by simp
qed

text \<open>
  C6. Two successive runs of the writer for one date key, the first writing \<open>B1\<close>: when the
  platform does not refuse the write of \<open>B2\<close>, the second run succeeds at the same path,
  the file there holds exactly \<open>B2\<close>, and the files are what one single run writing \<open>B2\<close>
  would have left: one brief file for the key, nothing of \<open>B1\<close> kept, no directory added.
\<close>

theorem rerun_overwrites_brief:
  assumes "save_daily_brief B1 d w = (Some p, w1)"
    and "\<not> refused w (Write p B2)"
  shows "\<exists>w2. save_daily_brief B2 d w1 = (Some p, w2) \<and>
              files w2 p = Some B2 \<and>
              files w2 = (files w)(p \<mapsto> B2) \<and>
              dirs w2 = dirs w1"
proof -
  note f = save_daily_brief_Some [OF assms(1)]
  have e: "ensure_dir_exists DAILYBRIEF_DIR w1 = Inr w1"
    using f by (simp add: ensure_dir_exists_def)
  have bp: "brief_path d w1 = p"
    using f brief_path_cong [of w1 w d] by simp
  have o: "open_write p w1 = Inr (w1\<lparr>files := (files w1)(p \<mapsto> [])\<rparr>)"
    using f by (auto simp: open_write_def)
  have wr: "file_write p B2 (w1\<lparr>files := (files w1)(p \<mapsto> [])\<rparr>)
              = Inr (w1\<lparr>files := (files w1)(p \<mapsto> B2)\<rparr>)"
    using f assms(2) by (simp add: file_write_def)
  have "save_daily_brief B2 d w1
          = (Some p, logger_info (Brief_saved p) (w1\<lparr>files := (files w1)(p \<mapsto> B2)\<rparr>))"
    by (simp add: save_daily_brief_def e bp o wr)
  moreover have "(files w1)(p \<mapsto> B2) = (files w)(p \<mapsto> B2)"
    using f by simp
  ultimately show ?thesis by simp
qed

theorem rerun_overwrites_brief_witness:
  "\<exists>w2. save_daily_brief ''# Second'' (Some ''20240102'')
            (snd (save_daily_brief ''# First'' (Some ''20240102'') demo_world))
          = (Some ''dailybrief/20240102.md'', w2) \<and>
        files w2 ''dailybrief/20240102.md'' = Some ''# Second''"
proof -
  let ?r = "save_daily_brief ''# First'' (Some ''20240102'') demo_world"
  have "fst ?r = Some ''dailybrief/20240102.md''" by (simp add: run_defs)
  then have first: "?r = (Some ''dailybrief/20240102.md'', snd ?r)"
    by (metis prod.collapse)
  have allowed: "\<not> refused demo_world (Write ''dailybrief/20240102.md'' ''# Second'')"
    by (simp add: demo_world_def)
  from rerun_overwrites_brief [OF first allowed] show ?thesis by blast
qed

section \<open>The article loader\<close>

text \<open>
  C2. When the articles file of the date key exists, can be read, and its text parses as a
  JSON array of the records \<open>recs\<close>, \<open>load_articles\<close> returns exactly the list \<open>recs\<close>
  (the same records in the same order, hence \<open>length recs\<close> of them) and logs that count.
\<close>

theorem load_articles_returns_records:
  assumes "files w (articles_path d w) = Some text"
    and "articles_path d w \<notin> dirs w"
    and "\<not> refused w (OpenR (articles_path d w))"
    and "json_load P text = Some (PList recs)"
  shows "load_articles P d w =
           (PList recs, logger_info (Articles_loaded (articles_path d w) (length recs)) w)"
  using assms by (simp add: load_articles_def Let_def os_path_exists_def open_read_def domI)

theorem load_articles_returns_records_witness:
  "load_articles demo_platform (Some ''20240102'') demo_world =
     (PList [PDict [], PDict []],
      logger_info (Articles_loaded ''articles/20240102.json'' 2) demo_world)"
proof -
  have "files demo_world (articles_path (Some ''20240102'') demo_world) = Some ''[{}, {}]''"
    and "articles_path (Some ''20240102'') demo_world \<notin> dirs demo_world"
    and "\<not> refused demo_world (OpenR (articles_path (Some ''20240102'') demo_world))"
    and "json_load demo_platform ''[{}, {}]'' = Some (PList [PDict [], PDict []])"
    unfolding demo_articles_path by (simp_all add: demo_world_def demo_platform_def)
  from load_articles_returns_records [OF this] show ?thesis
    by (simp add: demo_articles_path)
qed

text \<open>
  C9. When the articles file parses to a value that has no length (\<^verbatim>\<open>null\<close>, a boolean,
  an integer or a float), \<^verbatim>\<open>len\<close> raises inside the \<^verbatim>\<open>try\<close>, the exception is caught, and
  \<open>load_articles\<close> returns \<^verbatim>\<open>None\<close> with the load-failure log line although the file parsed.
\<close>

theorem unsized_value_is_load_failure:
  assumes "files w (articles_path d w) = Some text"
    and "articles_path d w \<notin> dirs w"
    and "\<not> refused w (OpenR (articles_path d w))"
    and "json_load P text = Some v"
    and "v = PNone \<or> v = PBool b \<or> v = PInt i \<or> v = PFloat x"
  shows "py_len v = None \<and> load_articles P d w = (PNone, logger_error Load_failed w)"
  using assms by (auto simp: load_articles_def Let_def os_path_exists_def open_read_def domI)

theorem unsized_value_is_load_failure_witness:
  "load_articles demo_platform (Some ''20240102'')
     (demo_world\<lparr>files := [''articles/20240102.json'' \<mapsto> ''7'']\<rparr>)
   = (PNone, logger_error Load_failed (demo_world\<lparr>files := [''articles/20240102.json'' \<mapsto> ''7'']\<rparr>))"
proof -
  let ?w = "demo_world\<lparr>files := [''articles/20240102.json'' \<mapsto> ''7'']\<rparr>"
  have p: "articles_path (Some ''20240102'') ?w = ''articles/20240102.json''"
    by (simp add: articles_path_def date_key_def os_path_join_def ARTICLES_DIR_def)
  have "files ?w (articles_path (Some ''20240102'') ?w) = Some ''7''"
    and "articles_path (Some ''20240102'') ?w \<notin> dirs ?w"
    and "\<not> refused ?w (OpenR (articles_path (Some ''20240102'') ?w))"
    and "json_load demo_platform ''7'' = Some (PInt 7)"
    and "PInt 7 = PNone \<or> PInt 7 = PBool False \<or> PInt 7 = PInt 7 \<or> PInt 7 = PFloat 0"
    unfolding p by (simp_all add: demo_world_def demo_platform_def)
  from unsized_value_is_load_failure [OF this] show ?thesis by simp
qed

section \<open>The orchestrator\<close>

text \<open>
  C8. When the articles file exists, can be read and parses as the empty JSON array, the
  loader succeeds and returns the empty list, yet \<open>generate_daily_brief\<close> reports failure
  and sends no request, whatever the credential; it does the same when the file is missing.
\<close>

theorem empty_collection_aborts:
  assumes "files w (articles_path d w) = Some text"
    and "articles_path d w \<notin> dirs w"
    and "\<not> refused w (OpenR (articles_path d w))"
    and "json_load P text = Some (PList [])"
  shows "fst (load_articles P d w) = PList [] \<and>
         fst (generate_daily_brief P api_key d w) = False \<and>
         calls (snd (generate_daily_brief P api_key d w)) = calls w \<and>
         (\<not> os_path_exists (articles_path d w0) w0 \<longrightarrow>
            fst (load_articles P d w0) = PNone \<and>
            fst (generate_daily_brief P api_key d w0) = False \<and>
            calls (snd (generate_daily_brief P api_key d w0)) = calls w0)"
proof -
  have l: "fst (load_articles P d w) = PList []"
    using assms by (simp add: load_articles_def Let_def os_path_exists_def open_read_def domI)
  then have "\<not> py_truthy (fst (load_articles P d w))" by simp
  note a = generate_daily_brief_falsy [OF this]
  have "fst (load_articles P d w0) = PNone \<and>
        fst (generate_daily_brief P api_key d w0) = False \<and>
        calls (snd (generate_daily_brief P api_key d w0)) = calls w0"
    if m: "\<not> os_path_exists (articles_path d w0) w0"
  proof -
    from m have l0: "fst (load_articles P d w0) = PNone"
      by (simp add: load_articles_def Let_def)
    then have "\<not> py_truthy (fst (load_articles P d w0))" by simp
    from generate_daily_brief_falsy [OF this] l0 show ?thesis by simp
  qed
  with l a show ?thesis by simp
qed

theorem empty_collection_aborts_witness:
  "fst (load_articles demo_platform (Some ''20240102'')
          (demo_world\<lparr>files := [''articles/20240102.json'' \<mapsto> ''[]'']\<rparr>)) = PList [] \<and>
   fst (generate_daily_brief demo_platform None (Some ''20240102'')
          (demo_world\<lparr>files := [''articles/20240102.json'' \<mapsto> ''[]'']\<rparr>)) = False \<and>
   calls (snd (generate_daily_brief demo_platform None (Some ''20240102'')
          (demo_world\<lparr>files := [''articles/20240102.json'' \<mapsto> ''[]'']\<rparr>))) = [] \<and>
   fst (generate_daily_brief demo_platform None (Some ''20240102'')
          (demo_world\<lparr>files := Map.empty\<rparr>)) = False"
proof -
  let ?w = "demo_world\<lparr>files := [''articles/20240102.json'' \<mapsto> ''[]'']\<rparr>"
  let ?v = "demo_world\<lparr>files := Map.empty\<rparr>"
  have p: "articles_path (Some ''20240102'') ?w = ''articles/20240102.json''"
    by (simp add: articles_path_def date_key_def os_path_join_def ARTICLES_DIR_def)
  have p0: "articles_path (Some ''20240102'') ?v = ''articles/20240102.json''"
    by (simp add: articles_path_def date_key_def os_path_join_def ARTICLES_DIR_def)
  have "files ?w (articles_path (Some ''20240102'') ?w) = Some ''[]''"
    and "articles_path (Some ''20240102'') ?w \<notin> dirs ?w"
    and "\<not> refused ?w (OpenR (articles_path (Some ''20240102'') ?w))"
    and "json_load demo_platform ''[]'' = Some (PList [])"
    unfolding p by (simp_all add: demo_world_def demo_platform_def)
  note t = empty_collection_aborts [OF this, of None ?v]
  have m: "\<not> os_path_exists (articles_path (Some ''20240102'') ?v) ?v"
    unfolding p0 by (simp add: os_path_exists_def demo_world_def)
  have c: "calls ?w = []" by (simp add: demo_world_def)
  from t m c show ?thesis by simp
qed

text \<open>
  C4. When the caller passes no credential and the environment has none (the variable is
  unset or empty), \<open>generate_daily_brief\<close> reports failure, logs one error line and
  changes nothing else, so no request is sent; \<open>call_deepseek_api\<close> called on its own
  does the same; and a run of \<open>main\<close> without the credential flag sends no request.
\<close>

theorem no_credential_no_call:
  assumes "\<not> str_truthy (environ w ''DEEPSEEK_API_KEY'')"
  shows "generate_daily_brief P None d w = (False, logger_error Need_key w) \<and>
         calls (snd (generate_daily_brief P None d w)) = calls w \<and>
         call_deepseek_api P None prompt articles w = (None, logger_error Key_env_unset w) \<and>
         calls (snd (call_deepseek_api P None prompt articles w)) = calls w \<and>
         (\<not> str_truthy (arg_api_key a) \<longrightarrow> calls (snd (main P a w)) = calls w)"
proof -
  have g: "generate_daily_brief P None d w = (False, logger_error Need_key w)"
    by (rule generate_daily_brief_no_key [OF assms])
  have c: "call_deepseek_api P None prompt articles w = (None, logger_error Key_env_unset w)"
    using assms by (simp add: call_deepseek_api_def)
  have "calls (snd (main P a w)) = calls w" if na: "\<not> str_truthy (arg_api_key a)"
  proof -
    let ?w2 = "setenv_if_given ''DEEPSEEK_API_KEY'' (arg_api_key a)
                 (setenv_if_given ''DEEPSEEK_MODEL'' (arg_model a) w)"
    have e2: "environ ?w2 ''DEEPSEEK_API_KEY'' = environ w ''DEEPSEEK_API_KEY''"
      using na by (cases "arg_api_key a"; cases "arg_model a") (auto simp: setenv_if_given_def)
    show ?thesis
    proof (cases "ensure_dir_exists DAILYBRIEF_DIR ?w2")
      case (Inl e)
      then show ?thesis by (simp add: main_def Let_def)
    next
      case (Inr w3)
      have "environ w3 = environ ?w2" "calls w3 = calls w"
        using ensure_dir_exists_frame(1,6) [OF Inr] by simp_all
      then have "\<not> str_truthy (environ w3 ''DEEPSEEK_API_KEY'')"
        using assms e2 by simp
      from generate_daily_brief_no_key [OF this] \<open>calls w3 = calls w\<close>
      show ?thesis by (simp add: main_after_dir [OF Inr])
    qed
  qed
  with g c show ?thesis by simp
qed

theorem no_credential_no_call_witness:
  "fst (generate_daily_brief demo_platform None (Some ''20240102'')
          (demo_world\<lparr>environ := Map.empty\<rparr>)) = False \<and>
   calls (snd (generate_daily_brief demo_platform None (Some ''20240102'')
          (demo_world\<lparr>environ := Map.empty\<rparr>))) = [] \<and>
   calls (snd (main demo_platform demo_args (demo_world\<lparr>environ := Map.empty\<rparr>))) = []"
proof -
  let ?w = "demo_world\<lparr>environ := Map.empty\<rparr>"
  have h: "\<not> str_truthy (environ ?w ''DEEPSEEK_API_KEY'')" by simp
  have a: "\<not> str_truthy (arg_api_key demo_args)" by (simp add: demo_args_def)
  have c: "calls ?w = []" by (simp add: demo_world_def)
  from no_credential_no_call [OF h, of demo_platform "Some ''20240102''" None PNone demo_args] a c
  show ?thesis by simp
qed

section \<open>The prompt\<close>

text \<open>
  C3. Whenever a credential is resolved and the loader returns a collection the
  orchestrator accepts, exactly one request is sent; it carries a single message, of role
  user, whose text has the fixed template \<open>DEFAULT_PROMPT\<close> as a prefix and, as a suffix,
  the serialization of the loaded collection made with \<^verbatim>\<open>ensure_ascii=False\<close> and
  \<^verbatim>\<open>indent=2\<close>.
\<close>

theorem prompt_message_shape:
  assumes "py_truthy (fst (load_articles P d w))"
    and "api_key \<noteq> None \<or> str_truthy (environ w ''DEEPSEEK_API_KEY'')"
  shows "\<exists>req content.
           calls (snd (generate_daily_brief P api_key d w)) = calls w @ [req] \<and>
           req_messages req = [(''user'', content)] \<and>
           prefix DEFAULT_PROMPT content \<and>
           suffix (json_dumps P False 2 (fst (load_articles P d w))) content"
proof -
  from assms(2) obtain key where
    "api_key = Some key \<or> (api_key = None \<and> environ w ''DEEPSEEK_API_KEY'' = Some key \<and> key \<noteq> [])"
    by (cases api_key; cases "environ w ''DEEPSEEK_API_KEY''") auto
  from generate_daily_brief_truthy [OF assms(1) this]
  show ?thesis
    by (simp add: make_request_def prompt_content_def suffix_def)
qed

theorem prompt_message_shape_witness:
  "\<exists>req content.
     calls (snd (generate_daily_brief demo_platform None (Some ''20240102'') demo_world)) = [req] \<and>
     req_messages req = [(''user'', content)] \<and>
     prefix DEFAULT_PROMPT content \<and>
     suffix ''[\<newline>  {},\<newline>  {}\<newline>]'' content"
proof -
  have l: "fst (load_articles demo_platform (Some ''20240102'') demo_world)
             = PList [PDict [], PDict []]"
    by (simp add: run_defs)
  have t: "py_truthy (fst (load_articles demo_platform (Some ''20240102'') demo_world))"
    unfolding l by simp
  have k: "None \<noteq> (None :: string option) \<or> str_truthy (environ demo_world ''DEEPSEEK_API_KEY'')"
    by (simp add: demo_world_def)
  have c: "calls demo_world = []" by (simp add: demo_world_def)
  have j: "json_dumps demo_platform False 2 (PList [PDict [], PDict []])
             = ''[\<newline>  {},\<newline>  {}\<newline>]''"
    by (simp add: demo_platform_def)
  from prompt_message_shape [OF t k] show ?thesis
    unfolding l j c by simp
qed

section \<open>The command line\<close>

text \<open>
  C5. The claim: a model override given on the command line reaches the request through
  the environment. The script stores the override under \<^verbatim>\<open>DEEPSEEK_MODEL\<close> (line 182) and
  the client reads \<^verbatim>\<open>SUMMARY_MODEL\<close> (line 111): run with the override
  \<^verbatim>\<open>deepseek-reasoner\<close>, the one request sent names the default model.
\<close>

theorem model_override_not_read:
  "map req_model (calls (snd (main demo_platform (demo_args\<lparr>arg_model := Some ''deepseek-reasoner''\<rparr>) demo_world)))
     = [''deepseek-chat''] \<and>
   environ (snd (main demo_platform (demo_args\<lparr>arg_model := Some ''deepseek-reasoner''\<rparr>) demo_world))
     ''DEEPSEEK_MODEL'' = Some ''deepseek-reasoner''"
  by (simp add: run_defs)

text \<open>
  C7. The claim: whatever the outcome (success or any failure of the taxonomy, a failed
  creation of the output directory among them), the process ends with status 0 and the
  failure is told by an error log line only. Every function of the script catches its
  exceptions and logs them, \<open>save_daily_brief\<close> also those of \<open>ensure_dir_exists\<close>; the
  call of \<open>ensure_dir_exists\<close> in \<open>main\<close> (line 187) does not. In a working directory
  where the output directory cannot be created, the exception leaves \<open>main\<close>: the status
  is 1 and no record is logged, while the writer, on the same failure, logs the error line
  and returns \<^verbatim>\<open>None\<close>.
\<close>

theorem main_dir_failure_exits_nonzero:
  "fst (main demo_platform demo_args readonly_world) = 1 \<and>
   log (snd (main demo_platform demo_args readonly_world)) = [] \<and>
   save_daily_brief ''# Brief'' (Some ''20240102'') readonly_world
     = (None, logger_error Save_failed readonly_world)"
  by (simp add: run_defs)

text \<open>
  C10, as the claim states it, fails: with a regular file at the output directory's name
  the guard of \<open>ensure_dir_exists\<close> skips the creation, the run ends with status 0 and the
  directory does not exist afterwards.
\<close>

theorem main_output_dir_counterexample:
  "fst (main demo_platform demo_args occupied_world) = 0 \<and>
   DAILYBRIEF_DIR \<notin> dirs (snd (main demo_platform demo_args occupied_world))"
  by (simp add: run_defs)

text \<open>
  C10, amended. When the output directory already exists, or nothing is at its name and the
  platform lets it be created, \<open>main\<close> runs \<open>generate_daily_brief\<close> (credential, articles,
  request) in a world \<open>w3\<close> where the directory is already there, no request has been sent
  and no file has changed; after the run, whatever its outcome, the directories are those
  of before with the output directory among them, so one that existed is left as it was.
\<close>

theorem main_output_dir_exists_afterwards:
  assumes "DAILYBRIEF_DIR \<in> dirs w \<or>
           (DAILYBRIEF_DIR \<notin> dom (files w) \<and> \<not> refused w (Mkdir DAILYBRIEF_DIR))"
  shows "\<exists>w3. DAILYBRIEF_DIR \<in> dirs w3 \<and> calls w3 = calls w \<and> files w3 = files w \<and>
              snd (main P a w) =
                (if fst (generate_daily_brief P None (arg_date a) w3)
                 then logger_info Brief_ok (snd (generate_daily_brief P None (arg_date a) w3))
                 else logger_error Brief_failed (snd (generate_daily_brief P None (arg_date a) w3))) \<and>
              dirs (snd (main P a w)) = insert DAILYBRIEF_DIR (dirs w)"
proof -
  let ?w2 = "setenv_if_given ''DEEPSEEK_API_KEY'' (arg_api_key a)
                (setenv_if_given ''DEEPSEEK_MODEL'' (arg_model a) w)"
  have "os_path_exists DAILYBRIEF_DIR w \<or> \<not> refused w (Mkdir DAILYBRIEF_DIR)"
    using assms by (auto simp: os_path_exists_def)
  from main_dir_step_ok [OF this] obtain w3 where
    e: "ensure_dir_exists DAILYBRIEF_DIR ?w2 = Inr w3" by blast
  have ex: "os_path_exists DAILYBRIEF_DIR ?w2 = os_path_exists DAILYBRIEF_DIR w"
    by (rule os_path_exists_cong) simp_all
  have d3: "dirs w3 = insert DAILYBRIEF_DIR (dirs w)"
    using ensure_dir_exists_cases [OF e] assms ex by (auto simp: os_path_exists_def)
  have fr: "calls w3 = calls w" "files w3 = files w"
    using ensure_dir_exists_frame(2,6) [OF e] by simp_all
  have "dirs (snd (generate_daily_brief P None (arg_date a) w3)) = insert DAILYBRIEF_DIR (dirs w)"
    using generate_daily_brief_dirs [of P None "arg_date a" w3] d3 by auto
  then show ?thesis
    using d3 fr main_after_dir [OF e, of P] by (intro exI [of _ w3]) simp
qed

theorem main_output_dir_exists_afterwards_witness:
  "dirs (snd (main demo_platform demo_args (demo_world\<lparr>environ := Map.empty\<rparr>)))
     = {''dailybrief'', ''articles''}"
proof -
  let ?w = "demo_world\<lparr>environ := Map.empty\<rparr>"
  have h: "DAILYBRIEF_DIR \<in> dirs ?w \<or>
           (DAILYBRIEF_DIR \<notin> dom (files ?w) \<and> \<not> refused ?w (Mkdir DAILYBRIEF_DIR))"
    by (simp add: demo_world_def DAILYBRIEF_DIR_def)
  have d: "dirs ?w = {''articles''}" by (simp add: demo_world_def)
  from main_output_dir_exists_afterwards [OF h, of demo_platform demo_args]
  show ?thesis unfolding d by (auto simp: DAILYBRIEF_DIR_def)
qed

end
